theory Spec2Isabelle
  imports Complex_Main
begin

section \<open>Data model\<close>

text \<open>
  One validated input row, the dictionary
  \<^verbatim>\<open>{'category': category, 'amount': amount, 'month': month}\<close> of \<^verbatim>\<open>forecast\<close>.
  Python's unbounded \<^verbatim>\<open>int\<close> is \<open>int\<close>; a Python \<^verbatim>\<open>float\<close> is idealised as a \<open>real\<close>
  (the data model of the specification calls the amount a real), so rounding, infinities
  and NaN are outside this development.
\<close>

record observation =
  category :: string
  amount :: real
  month :: int

text \<open>
  A Python \<^verbatim>\<open>dict\<close> is an association list in insertion order with one entry per key:
  \<^verbatim>\<open>d[k] = v\<close> replaces the value of a key that is present where it stands, and appends a
  new key at the end.
\<close>

type_synonym ('k, 'v) dict = "('k \<times> 'v) list"

fun dict_set :: "'k \<Rightarrow> 'v \<Rightarrow> ('k, 'v) dict \<Rightarrow> ('k, 'v) dict" where
  "dict_set k v [] = [(k, v)]"
| "dict_set k v (p # ps) = (if fst p = k then (k, v) # ps else p # dict_set k v ps)"

definition dict_get :: "('k, 'v) dict \<Rightarrow> 'k \<Rightarrow> 'v option" where
  "dict_get d k = map_of d k"

definition dict_keys :: "('k, 'v) dict \<Rightarrow> 'k list" where
  "dict_keys d = map fst d"

text \<open>
  A month summary is the flat dictionary \<^verbatim>\<open>month_data\<close> of \<^verbatim>\<open>generate_forecast\<close>: the keys
  \<^verbatim>\<open>'month'\<close> and \<^verbatim>\<open>'savings'\<close> and the category names share one key space. All values are
  JSON numbers; the month number is stored as the real it denotes.
\<close>

type_synonym month_data = "(string, real) dict"

text \<open>The responses of \<^verbatim>\<open>forecast\<close> that carry an \<^verbatim>\<open>error\<close> message, one constructor each.\<close>

datatype error =
    SalaryNotPositive
  | ForecastMonthsNotPositive
  | BadHeaders
  | InvalidRow string string string
  | NoValidData
  | TooFewMonths nat
  | ProcessingError

section \<open>String helpers of the validator\<close>

text \<open>
  \<^verbatim>\<open>str.lower\<close> as far as the header test needs it: the letters A to Z go to a to z. Every
  other character that \<^verbatim>\<open>str.lower\<close> changes goes to a character outside ASCII, so leaving
  it in place does not change whether the result is one of the three header names.
\<close>

definition lower_char :: "char \<Rightarrow> char" where
  "lower_char c =
     (case map_of (zip ''ABCDEFGHIJKLMNOPQRSTUVWXYZ'' ''abcdefghijklmnopqrstuvwxyz'') c of
        Some d \<Rightarrow> d
      | None \<Rightarrow> c)"

definition lower :: "string \<Rightarrow> string" where
  "lower s = map lower_char s"

text \<open>
  \<^verbatim>\<open>str.strip\<close> on text whose characters are the code points below 256: the characters
  for which \<^verbatim>\<open>str.isspace\<close> holds are tab, line feed, vertical tab, form feed, carriage
  return, the separators 0x1C to 0x1F, the space, the next-line character 0x85 and the
  no-break space 0xA0.
\<close>

definition isspace :: "char \<Rightarrow> bool" where
  "isspace c =
     (c \<in> set [CHR 0x09, CHR 0x0A, CHR 0x0B, CHR 0x0C, CHR 0x0D,
               CHR 0x1C, CHR 0x1D, CHR 0x1E, CHR 0x1F, CHR 0x20, CHR 0x85, CHR 0xA0])"

definition strip :: "string \<Rightarrow> string" where
  "strip s = rev (dropWhile isspace (rev (dropWhile isspace s)))"

section \<open>The validator: \<^verbatim>\<open>forecast\<close>, lines 50 to 105\<close>

text \<open>
  The row loop of lines 65 to 84. The rows are what \<^verbatim>\<open>csv.reader\<close> yields after the
  header, each a list of fields. The built-in conversions \<^verbatim>\<open>int\<close> and \<^verbatim>\<open>float\<close> are
  parameters: \<open>None\<close> stands for the \<^verbatim>\<open>ValueError\<close> they raise. The accumulators are the
  list \<^verbatim>\<open>all_data\<close> and the set \<^verbatim>\<open>months_found\<close>.
\<close>

fun parse_rows ::
  "(string \<Rightarrow> int option) \<Rightarrow> (string \<Rightarrow> real option) \<Rightarrow> string list list \<Rightarrow>
   observation list \<Rightarrow> int set \<Rightarrow> error + (observation list \<times> int set)" where
  "parse_rows py_int py_float [] all_data months_found = Inr (all_data, months_found)"
| "parse_rows py_int py_float (row # rest) all_data months_found =
     (if length row \<noteq> 3 then parse_rows py_int py_float rest all_data months_found
      else
        let month_str = strip (row ! 0);
            cat = strip (row ! 1);
            amount_str = strip (row ! 2)
        in
          if cat = [] \<or> month_str = [] then
            parse_rows py_int py_float rest all_data months_found
          else
            (case py_int month_str of
               None \<Rightarrow> Inl (InvalidRow cat month_str amount_str)
             | Some m \<Rightarrow>
                 (case py_float amount_str of
                    None \<Rightarrow> Inl (InvalidRow cat month_str amount_str)
                  | Some a \<Rightarrow>
                      parse_rows py_int py_float rest
                        (all_data @ [\<lparr>category = cat, amount = a, month = m\<rparr>])
                        (insert m months_found))))"

text \<open>The header test of line 58.\<close>

definition headers_ok :: "string list \<Rightarrow> bool" where
  "headers_ok headers =
     (\<not> (length headers \<noteq> 3 \<or> lower (headers ! 0) \<noteq> ''month''
         \<or> lower (headers ! 1) \<noteq> ''category'' \<or> lower (headers ! 2) \<noteq> ''amount''))"

section \<open>The forecast engine: \<^verbatim>\<open>generate_forecast\<close>\<close>

text \<open>
  The inner loop of the historical pass, lines 121 to 126: one category of one month,
  on the state \<^verbatim>\<open>(month_data, total_expense)\<close>.
\<close>

definition historical_category ::
  "observation list \<Rightarrow> int \<Rightarrow> string \<Rightarrow> month_data \<times> real \<Rightarrow> month_data \<times> real" where
  "historical_category data m cat st =
     (case st of (month_data, total_expense) \<Rightarrow>
        (let category_items = filter (\<lambda>item. category item = cat \<and> month item = m) data
         in if category_items \<noteq> [] then
              (let a = sum_list (map amount category_items)
               in (dict_set cat a month_data, total_expense + a))
            else (month_data, total_expense)))"

text \<open>The body of the historical pass, lines 118 to 129: the summary of one month.\<close>

definition historical_summary ::
  "observation list \<Rightarrow> string list \<Rightarrow> real \<Rightarrow> int \<Rightarrow> month_data" where
  "historical_summary data categories salary m =
     (case fold (historical_category data m) categories
             ([(''month'', of_int m), (''savings'', 0)], 0) of
        (month_data, total_expense) \<Rightarrow>
          dict_set ''savings'' (salary - total_expense) month_data)"

text \<open>
  Lines 146 to 151: the dictionary \<^verbatim>\<open>monthly_category_sums\<close>, keyed by
  \<^verbatim>\<open>(month, category)\<close>. A key that is absent is first set to 0, then the amount is added.
\<close>

definition add_amount ::
  "int \<times> string \<Rightarrow> real \<Rightarrow> (int \<times> string, real) dict \<Rightarrow> (int \<times> string, real) dict" where
  "add_amount k a tbl =
     (let tbl1 = (if k \<notin> set (dict_keys tbl) then dict_set k 0 tbl else tbl)
      in (case dict_get tbl1 k of
            Some s \<Rightarrow> dict_set k (s + a) tbl1
          | None \<Rightarrow> tbl1))"

definition monthly_category_sums ::
  "observation list \<Rightarrow> (int \<times> string, real) dict" where
  "monthly_category_sums category_data =
     fold (\<lambda>item. add_amount (month item, category item) (amount item)) category_data []"

text \<open>Lines 154 to 159: the regression inputs \<^verbatim>\<open>X\<close> and \<^verbatim>\<open>y\<close>, in the order of the dictionary.\<close>

definition regression_X :: "(int \<times> string, real) dict \<Rightarrow> string \<Rightarrow> int list" where
  "regression_X tbl cat = map (\<lambda>kv. fst (fst kv)) (filter (\<lambda>kv. snd (fst kv) = cat) tbl)"

definition regression_y :: "(int \<times> string, real) dict \<Rightarrow> string \<Rightarrow> real list" where
  "regression_y tbl cat = map snd (filter (\<lambda>kv. snd (fst kv) = cat) tbl)"

text \<open>
  The per-category series the regression is fitted to: the pairs of \<^verbatim>\<open>X\<close> and \<^verbatim>\<open>y\<close> that
  lines 141 to 159 build for one category.
\<close>

definition category_series :: "observation list \<Rightarrow> string \<Rightarrow> (int \<times> real) list" where
  "category_series data cat =
     (let tbl = monthly_category_sums (filter (\<lambda>item. category item = cat) data)
      in zip (regression_X tbl cat) (regression_y tbl cat))"

text \<open>
  Modelled from the spec: \<^verbatim>\<open>sklearn.linear_model.LinearRegression\<close> (its \<^verbatim>\<open>fit\<close> and
  \<^verbatim>\<open>predict\<close>) is a library outside the source tree. The specification describes it as a
  univariate ordinary least-squares fit of amount against month, which with a single data
  point degenerates to the constant line through that point (slope 0). \<open>fit\<close> returns
  the pair (slope, intercept) of the closed form over the centred data; \<open>predict\<close>
  evaluates the line.
\<close>

definition mean :: "real list \<Rightarrow> real" where
  "mean xs = sum_list xs / of_nat (length xs)"

definition fit :: "int list \<Rightarrow> real list \<Rightarrow> real \<times> real" where
  "fit X y =
     (let xs = map of_int X;
          x_mean = mean xs;
          y_mean = mean y;
          sxx = sum_list (map (\<lambda>x. (x - x_mean) * (x - x_mean)) xs);
          sxy = sum_list (map (\<lambda>(x, v). (x - x_mean) * (v - y_mean)) (zip xs y));
          coef = (if sxx = 0 then 0 else sxy / sxx)
      in (coef, y_mean - coef * x_mean))"

definition predict :: "real \<times> real \<Rightarrow> int \<Rightarrow> real" where
  "predict model m = fst model * of_int m + snd model"

text \<open>
  Lines 141 to 169 for a category that has data: the value \<^verbatim>\<open>predicted_amount\<close> of
  category \<open>cat\<close> at month \<open>m\<close>.
\<close>

definition predicted_amount :: "observation list \<Rightarrow> string \<Rightarrow> int \<Rightarrow> real" where
  "predicted_amount data cat m =
     (let category_data = filter (\<lambda>item. category item = cat) data;
          tbl = monthly_category_sums category_data;
          model = fit (regression_X tbl cat) (regression_y tbl cat)
      in max 0 (predict model m))"

text \<open>The inner loop of the future pass, lines 139 to 171.\<close>

definition future_category ::
  "observation list \<Rightarrow> int \<Rightarrow> string \<Rightarrow> month_data \<times> real \<Rightarrow> month_data \<times> real" where
  "future_category data m cat st =
     (case st of (month_data, total_expense) \<Rightarrow>
        (let category_data = filter (\<lambda>item. category item = cat) data
         in if category_data \<noteq> [] then
              (let p = predicted_amount data cat m
               in (dict_set cat p month_data, total_expense + p))
            else (month_data, total_expense)))"

text \<open>The body of the future pass, lines 136 to 174.\<close>

definition future_summary ::
  "observation list \<Rightarrow> string list \<Rightarrow> real \<Rightarrow> int \<Rightarrow> month_data" where
  "future_summary data categories salary m =
     (case fold (future_category data m) categories
             ([(''month'', of_int m), (''savings'', 0)], 0) of
        (month_data, total_expense) \<Rightarrow>
          dict_set ''savings'' (salary - total_expense) month_data)"

text \<open>\<^verbatim>\<open>max\<close> of a list raises \<^verbatim>\<open>ValueError\<close> on the empty list: \<open>None\<close>.\<close>

fun max_list :: "int list \<Rightarrow> int option" where
  "max_list [] = None"
| "max_list (x # xs) = Some (fold max xs x)"

text \<open>\<^verbatim>\<open>range(a, b)\<close> as a list.\<close>

definition range_list :: "int \<Rightarrow> int \<Rightarrow> int list" where
  "range_list a b = [a..b - 1]"

text \<open>The list \<^verbatim>\<open>months\<close> of line 114.\<close>

definition months_of :: "observation list \<Rightarrow> int list" where
  "months_of data = sort (remdups (map month data))"

text \<open>
  \<^verbatim>\<open>generate_forecast\<close>, lines 110 to 176. \<open>None\<close> is the \<^verbatim>\<open>ValueError\<close> of
  \<^verbatim>\<open>max(months)\<close> when there is no data.
\<close>

definition generate_forecast ::
  "observation list \<Rightarrow> string list \<Rightarrow> real \<Rightarrow> int \<Rightarrow> month_data list option" where
  "generate_forecast data categories salary forecast_months =
     (let months = months_of data;
          result = map (historical_summary data categories salary) months
      in (case max_list months of
            None \<Rightarrow> None
          | Some mx \<Rightarrow>
              (let next_month = mx + 1
               in Some (result @
                        map (future_summary data categories salary)
                            (range_list next_month (next_month + forecast_months))))))"

text \<open>
  \<^verbatim>\<open>forecast\<close> from the decoded request on: the salary and the horizon as numbers (lines 29
  and 45), then the rows of the uploaded file as \<^verbatim>\<open>csv.reader\<close> yields them, the header
  first. Reading the header of an empty file raises \<^verbatim>\<open>StopIteration\<close>, which the handler
  of line 104 reports, as it would any exception of \<^verbatim>\<open>generate_forecast\<close>. The order in
  which Python lists the set of line 94 is not fixed: \<open>list_of_set\<close> is a parameter that
  stands for \<^verbatim>\<open>list(set(...))\<close>, of which only the elements are known (\<open>remdups\<close> is one
  such order).
\<close>

definition forecast ::
  "(string \<Rightarrow> int option) \<Rightarrow> (string \<Rightarrow> real option) \<Rightarrow> (string list \<Rightarrow> string list) \<Rightarrow>
   real \<Rightarrow> int \<Rightarrow> string list list \<Rightarrow> error + (string list \<times> month_data list)" where
  "forecast py_int py_float list_of_set salary forecast_months rows =
     (if salary \<le> 0 then Inl SalaryNotPositive
      else if forecast_months \<le> 0 then Inl ForecastMonthsNotPositive
      else
        (case rows of
           [] \<Rightarrow> Inl ProcessingError
         | headers # data_rows \<Rightarrow>
             if \<not> headers_ok headers then Inl BadHeaders
             else
               (case parse_rows py_int py_float data_rows [] {} of
                  Inl e \<Rightarrow> Inl e
                | Inr (all_data, months_found) \<Rightarrow>
                    if all_data = [] then Inl NoValidData
                    else if card months_found < 3 then Inl (TooFewMonths (card months_found))
                    else
                      (let categories = list_of_set (map category all_data)
                       in (case generate_forecast all_data categories salary forecast_months of
                             None \<Rightarrow> Inl ProcessingError
                           | Some forecast_data \<Rightarrow> Inr (categories, forecast_data))))))"

section \<open>Notions used to state the properties\<close>

text \<open>
  The output of \<^verbatim>\<open>generate_forecast\<close> is the historical summaries, one per entry of
  \<^verbatim>\<open>months\<close>, followed by the future ones.
\<close>

definition historical_part :: "observation list \<Rightarrow> month_data list \<Rightarrow> month_data list" where
  "historical_part data res = take (length (months_of data)) res"

definition future_part :: "observation list \<Rightarrow> month_data list \<Rightarrow> month_data list" where
  "future_part data res = drop (length (months_of data)) res"

text \<open>The values under the key \<^verbatim>\<open>'month'\<close>, summary by summary.\<close>

definition month_values :: "month_data list \<Rightarrow> real option list" where
  "month_values res = map (\<lambda>md. dict_get md ''month'') res"

text \<open>Each value is present and is the previous one plus 1.\<close>

fun no_gaps :: "real option list \<Rightarrow> bool" where
  "no_gaps [] = True"
| "no_gaps [v] = (v \<noteq> None)"
| "no_gaps (Some a # Some b # vs) = (b = a + 1 \<and> no_gaps (Some b # vs))"
| "no_gaps (v # w # vs) = False"

text \<open>
  The entries of a summary other than \<^verbatim>\<open>'month'\<close> and \<^verbatim>\<open>'savings'\<close>: its per-category
  amounts.
\<close>

definition category_entries :: "month_data \<Rightarrow> month_data" where
  "category_entries md = filter (\<lambda>kv. fst kv \<noteq> ''month'' \<and> fst kv \<noteq> ''savings'') md"

text \<open>
  A data row that the loop passes over (lines 66 and 74), and one at which it stops with
  the error of line 81.
\<close>

definition skipped :: "string list \<Rightarrow> bool" where
  "skipped row = (length row \<noteq> 3 \<or> strip (row ! 1) = [] \<or> strip (row ! 0) = [])"

definition bad_row :: "(string \<Rightarrow> int option) \<Rightarrow> (string \<Rightarrow> real option) \<Rightarrow> string list \<Rightarrow> bool" where
  "bad_row py_int py_float row =
     (length row = 3 \<and> \<not> skipped row \<and>
      (py_int (strip (row ! 0)) = None \<or> py_float (strip (row ! 2)) = None))"

definition row_error :: "string list \<Rightarrow> error" where
  "row_error row = InvalidRow (strip (row ! 1)) (strip (row ! 0)) (strip (row ! 2))"

text \<open>
  Both inner loops have one shape: a category for which \<open>present\<close> holds gets the entry
  \<open>val\<close> and adds it to the total, any other leaves the state as it is.
\<close>

definition record_entry ::
  "(string \<Rightarrow> bool) \<Rightarrow> (string \<Rightarrow> real) \<Rightarrow> string \<Rightarrow> month_data \<times> real \<Rightarrow> month_data \<times> real" where
  "record_entry present val cat st =
     (if present cat then (dict_set cat (val cat) (fst st), snd st + val cat) else st)"

definition month_amount :: "observation list \<Rightarrow> int \<Rightarrow> string \<Rightarrow> real" where
  "month_amount data m cat =
     sum_list (map amount (filter (\<lambda>item. category item = cat \<and> month item = m) data))"

text \<open>
  Readers of plain decimal numerals, on which Python's \<^verbatim>\<open>int\<close> and \<^verbatim>\<open>float\<close> agree with
  them; they stand for the two conversions in the examples.
\<close>

definition digit_val :: "char \<Rightarrow> nat option" where
  "digit_val c = map_of (zip ''0123456789'' [0, 1, 2, 3, 4, 5, 6, 7, 8, 9]) c"

fun digits_val :: "string \<Rightarrow> nat \<Rightarrow> nat option" where
  "digits_val [] acc = Some acc"
| "digits_val (c # cs) acc =
     (case digit_val c of None \<Rightarrow> None | Some d \<Rightarrow> digits_val cs (10 * acc + d))"

definition dec_int :: "string \<Rightarrow> int option" where
  "dec_int s =
     (case s of
        [] \<Rightarrow> None
      | c # cs \<Rightarrow>
          if c = CHR ''-'' then
            (if cs = [] then None else map_option (\<lambda>n. - int n) (digits_val cs 0))
          else map_option int (digits_val s 0))"

definition dec_float :: "string \<Rightarrow> real option" where
  "dec_float s = map_option of_int (dec_int s)"

definition obs :: "int \<Rightarrow> string \<Rightarrow> real \<Rightarrow> observation" where
  "obs m cat a = \<lparr>category = cat, amount = a, month = m\<rparr>"

text \<open>
  A table with three months and two categories, one of which has a single, negative
  amount; the observations it is read as; and the forecast for a salary of 100 over 2
  months.
\<close>

definition example_rows :: "string list list" where
  "example_rows =
     [[''month'', ''category'', ''amount''],
      [''0'', ''rent'', ''-5''], [''1'', ''food'', ''10''], [''2'', ''food'', ''20'']]"

definition example_data :: "observation list" where
  "example_data = [obs 0 ''rent'' (- 5), obs 1 ''food'' 10, obs 2 ''food'' 20]"

definition example_output :: "month_data list" where
  "example_output =
     [[(''month'', 0), (''savings'', 105), (''rent'', - 5)],
      [(''month'', 1), (''savings'', 90), (''food'', 10)],
      [(''month'', 2), (''savings'', 80), (''food'', 20)],
      [(''month'', 3), (''savings'', 70), (''rent'', 0), (''food'', 30)],
      [(''month'', 4), (''savings'', 60), (''rent'', 0), (''food'', 40)]]"

text \<open>
  A table whose months are 1, 3 and 7, and one in which a category is named
  \<^verbatim>\<open>savings\<close>, each with its observations and forecast.
\<close>

definition gap_rows :: "string list list" where
  "gap_rows =
     [[''month'', ''category'', ''amount''],
      [''1'', ''food'', ''10''], [''3'', ''food'', ''10''], [''7'', ''food'', ''10'']]"

definition gap_data :: "observation list" where
  "gap_data = [obs 1 ''food'' 10, obs 3 ''food'' 10, obs 7 ''food'' 10]"

definition gap_output :: "month_data list" where
  "gap_output =
     [[(''month'', 1), (''savings'', 90), (''food'', 10)],
      [(''month'', 3), (''savings'', 90), (''food'', 10)],
      [(''month'', 7), (''savings'', 90), (''food'', 10)],
      [(''month'', 8), (''savings'', 90), (''food'', 10)],
      [(''month'', 9), (''savings'', 90), (''food'', 10)]]"

definition savings_rows :: "string list list" where
  "savings_rows =
     [[''month'', ''category'', ''amount''],
      [''1'', ''savings'', ''5''], [''2'', ''food'', ''3''], [''3'', ''food'', ''4'']]"

definition savings_data :: "observation list" where
  "savings_data = [obs 1 ''savings'' 5, obs 2 ''food'' 3, obs 3 ''food'' 4]"

definition savings_output :: "month_data list" where
  "savings_output =
     [[(''month'', 1), (''savings'', 95)],
      [(''month'', 2), (''savings'', 97), (''food'', 3)],
      [(''month'', 3), (''savings'', 96), (''food'', 4)],
      [(''month'', 4), (''savings'', 90), (''food'', 5)]]"

text \<open>
  A table whose only category is named \<^verbatim>\<open>savings\<close>, with the amount 50 in each of three
  months, its observations, and the forecast for a salary of 1 over 1 month.
\<close>

definition overspent_rows :: "string list list" where
  "overspent_rows =
     [[''month'', ''category'', ''amount''],
      [''1'', ''savings'', ''50''], [''2'', ''savings'', ''50''], [''3'', ''savings'', ''50'']]"

definition overspent_data :: "observation list" where
  "overspent_data = [obs 1 ''savings'' 50, obs 2 ''savings'' 50, obs 3 ''savings'' 50]"

definition overspent_output :: "month_data list" where
  "overspent_output =
     [[(''month'', 1), (''savings'', - 49)],
      [(''month'', 2), (''savings'', - 49)],
      [(''month'', 3), (''savings'', - 49)],
      [(''month'', 4), (''savings'', - 49)]]"

section \<open>Dictionaries\<close>


lemma map_of_dict_set: "map_of (dict_set k v d) = (map_of d)(k \<mapsto> v)"
  by (induction d) (auto simp: fun_eq_iff)

lemma keys_dict_set: "fst ` set (dict_set k v d) = insert k (fst ` set d)"
  by (induction d) auto

lemma dict_set_fresh: "k \<notin> fst ` set d \<Longrightarrow> dict_set k v d = d @ [(k, v)]"
  by (induction d) auto

lemma distinct_dict_set: "distinct (map fst d) \<Longrightarrow> distinct (map fst (dict_set k v d))"
  by (induction d) (auto simp: keys_dict_set)

subsection \<open>The inner loops\<close>

lemma fold_record_get:
  "map_of (fst (fold (record_entry P f) cats st)) k =
     (if k \<in> set cats \<and> P k then Some (f k) else map_of (fst st) k)"
  by (induction cats arbitrary: st) (auto simp: record_entry_def map_of_dict_set)

lemma fold_record_keys:
  "fst ` set (fst (fold (record_entry P f) cats st)) =
     fst ` set (fst st) \<union> {c \<in> set cats. P c}"
  by (induction cats arbitrary: st) (auto simp: record_entry_def keys_dict_set)

lemma fold_record_total:
  "distinct cats \<Longrightarrow>
   snd (fold (record_entry P f) cats st) = snd st + sum_list (map f (filter P cats))"
  by (induction cats arbitrary: st) (auto simp: record_entry_def)

lemma fold_record_fresh:
  "distinct cats \<Longrightarrow> set cats \<inter> fst ` set (fst st) = {} \<Longrightarrow>
   fst (fold (record_entry P f) cats st) = fst st @ map (\<lambda>c. (c, f c)) (filter P cats)"
proof (induction cats arbitrary: st)
  case Nil
  then show ?case by simp
next
  case (Cons c cs)
  show ?case
  proof (cases "P c")
    case True
    have fresh: "c \<notin> fst ` set (fst st)" using Cons.prems by auto
    have step: "record_entry P f c st = (fst st @ [(c, f c)], snd st + f c)"
      using True fresh by (simp add: record_entry_def dict_set_fresh)
    have "set cs \<inter> fst ` set (fst (record_entry P f c st)) = {}"
      using Cons.prems by (auto simp: step)
    then have "fst (fold (record_entry P f) cs (record_entry P f c st)) =
        fst (record_entry P f c st) @ map (\<lambda>c. (c, f c)) (filter P cs)"
      using Cons.IH Cons.prems by simp
    then show ?thesis using True by (simp add: step)
  next
    case False
    then show ?thesis using Cons by (simp add: record_entry_def)
  qed
qed

lemma historical_category_record:
  "historical_category data m =
     record_entry (\<lambda>c. \<exists>x\<in>set data. category x = c \<and> month x = m) (month_amount data m)"
  by (intro ext) (auto simp: historical_category_def record_entry_def month_amount_def
      filter_empty_conv Let_def)

lemma future_category_record:
  "future_category data m =
     record_entry (\<lambda>c. \<exists>x\<in>set data. category x = c) (\<lambda>c. predicted_amount data c m)"
  by (intro ext) (auto simp: future_category_def record_entry_def filter_empty_conv Let_def)

section \<open>The shape of the output\<close>

lemma max_list_Max: "xs \<noteq> [] \<Longrightarrow> max_list xs = Some (Max (set xs))"
  by (cases xs) (simp_all add: Max.set_eq_fold del: set_simps)

lemma set_months_of: "set (months_of data) = month ` set data"
  by (simp add: months_of_def)

lemma length_months_of: "length (months_of data) = card (month ` set data)"
  by (simp add: months_of_def length_remdups_card_conv)

lemma sorted_months_of: "sorted_wrt (<) (months_of data)"
  by (simp add: months_of_def strict_sorted_iff)

lemma months_of_Nil: "months_of data = [] \<longleftrightarrow> data = []"
  using set_months_of [of data] by (metis image_is_empty set_empty)

lemma generate_forecast_Some:
  assumes "data \<noteq> []"
  shows "generate_forecast data categories salary h =
     Some (map (historical_summary data categories salary) (months_of data) @
           map (future_summary data categories salary)
             [Max (month ` set data) + 1..Max (month ` set data) + h])"
proof -
  have "months_of data \<noteq> []" using assms by (simp add: months_of_Nil)
  then have "max_list (months_of data) = Some (Max (month ` set data))"
    using max_list_Max [of "months_of data"] by (simp add: set_months_of)
  then show ?thesis
    by (simp add: generate_forecast_def range_list_def Let_def add.commute add.left_commute)
qed

lemma generate_forecast_None: "generate_forecast [] categories salary h = None"
  by (simp add: generate_forecast_def months_of_def)

lemma historical_summary_get:
  "dict_get (historical_summary data cats salary m) k =
     (if k = ''savings'' then
        Some (salary - snd (fold (historical_category data m) cats
                              ([(''month'', of_int m), (''savings'', 0)], 0)))
      else if k \<in> set cats \<and> (\<exists>x\<in>set data. category x = k \<and> month x = m) then
        Some (month_amount data m k)
      else if k = ''month'' then Some (of_int m) else None)"
  by (auto simp: historical_summary_def dict_get_def map_of_dict_set split_beta
      historical_category_record fold_record_get)

lemma future_summary_get:
  "dict_get (future_summary data cats salary m) k =
     (if k = ''savings'' then
        Some (salary - snd (fold (future_category data m) cats
                              ([(''month'', of_int m), (''savings'', 0)], 0)))
      else if k \<in> set cats \<and> (\<exists>x\<in>set data. category x = k) then
        Some (predicted_amount data k m)
      else if k = ''month'' then Some (of_int m) else None)"
  by (auto simp: future_summary_def dict_get_def map_of_dict_set split_beta
      future_category_record fold_record_get)

lemma no_gaps_upto: "no_gaps (map (\<lambda>m. Some (real_of_int m)) [a..b])"
proof (induction "nat (b - a + 1)" arbitrary: a)
  case 0
  then show ?case by simp
next
  case (Suc n)
  then have ab: "a \<le> b" by simp
  show ?case
  proof (cases "a + 1 \<le> b")
    case True
    have "n = nat (b - (a + 1) + 1)" using Suc.hyps(2) by simp
    then have ih: "no_gaps (map (\<lambda>m. Some (real_of_int m)) [a + 1..b])"
      using Suc.hyps(1) by blast
    have e1: "[a..b] = a # [a + 1..b]" using ab by (simp add: upto_rec1)
    have e2: "[a + 1..b] = (a + 1) # [a + 1 + 1..b]" using True by (simp add: upto_rec1)
    show ?thesis using ih unfolding e1 by (subst (asm) e2, subst e2) simp
  next
    case False
    then have "[a..b] = [a]" using ab by (simp add: upto_rec1)
    then show ?thesis by simp
  qed
qed

section \<open>Properties of the validator\<close>

lemma parse_rows_not_BadHeaders: "parse_rows py_int py_float rows acc ms \<noteq> Inl BadHeaders"
  by (induction py_int py_float rows acc ms rule: parse_rows.induct)
     (auto simp: Let_def split: option.splits)

lemma headers_ok_iff:
  "headers_ok headers \<longleftrightarrow>
     length headers = 3 \<and> map lower headers = [''month'', ''category'', ''amount'']"
proof
  assume "headers_ok headers"
  then have l: "length headers = 3" and e: "lower (headers ! 0) = ''month''"
     "lower (headers ! 1) = ''category''" "lower (headers ! 2) = ''amount''"
    by (auto simp: headers_ok_def)
  from l obtain a b c where "headers = [a, b, c]"
    by (cases headers; cases "tl headers"; cases "tl (tl headers)") auto
  then show "length headers = 3 \<and> map lower headers = [''month'', ''category'', ''amount'']"
    using e by simp
next
  assume a: "length headers = 3 \<and> map lower headers = [''month'', ''category'', ''amount'']"
  then obtain a b c where "headers = [a, b, c]"
    by (cases headers; cases "tl headers"; cases "tl (tl headers)") auto
  then show "headers_ok headers" using a by (simp add: headers_ok_def)
qed

text \<open>
  C8. With a positive salary and horizon, \<^verbatim>\<open>forecast\<close> answers with the header error exactly
  when the header does not have 3 fields whose lower-case forms are \<^verbatim>\<open>month\<close>,
  \<^verbatim>\<open>category\<close>, \<^verbatim>\<open>amount\<close> in this order, whatever the data rows are (they are not looked
  at); the header \<^verbatim>\<open>Month,Cat,Amt\<close> is rejected in this way.
\<close>

theorem header_schema:
  assumes "0 < salary" and "0 < h"
  shows "((forecast py_int py_float list_of_set salary h (headers # data_rows) = Inl BadHeaders) =
          (\<not> (length headers = 3 \<and>
              map lower headers = [''month'', ''category'', ''amount''])))
       \<and> forecast py_int py_float list_of_set salary h ([''Month'', ''Cat'', ''Amt''] # data_rows) =
           Inl BadHeaders"
proof
  show "(forecast py_int py_float list_of_set salary h (headers # data_rows) = Inl BadHeaders) =
         (\<not> (length headers = 3 \<and> map lower headers = [''month'', ''category'', ''amount'']))"
    using assms parse_rows_not_BadHeaders [of py_int py_float data_rows "[]" "{}"]
    by (auto simp: forecast_def headers_ok_iff Let_def split: sum.splits option.splits)
  show "forecast py_int py_float list_of_set salary h ([''Month'', ''Cat'', ''Amt''] # data_rows) =
          Inl BadHeaders"
    using assms by (simp add: forecast_def headers_ok_def lower_def lower_char_def)
qed

theorem header_schema_witness:
  "forecast dec_int dec_float remdups 100 3
     [[''Month'', ''Cat'', ''Amt''], [''1'', ''food'', ''x'']] = Inl BadHeaders
   \<and> forecast dec_int dec_float remdups 100 3
     [[''MONTH'', ''Category'', ''amount''], [''1'', ''food'', ''x'']] \<noteq> Inl BadHeaders"
  using header_schema [of 100 3 dec_int dec_float remdups "[''Month'', ''Cat'', ''Amt'']"
      "[[''1'', ''food'', ''x'']]"]
    header_schema [of 100 3 dec_int dec_float remdups "[''MONTH'', ''Category'', ''amount'']"
      "[[''1'', ''food'', ''x'']]"]
  by (simp add: lower_def lower_char_def)


lemma parse_rows_skip:
  "skipped r \<Longrightarrow> parse_rows py_int py_float (r # rest) acc ms = parse_rows py_int py_float rest acc ms"
  by (auto simp: skipped_def Let_def)

lemma parse_rows_bad:
  "bad_row py_int py_float r \<Longrightarrow> parse_rows py_int py_float (r # rest) acc ms = Inl (row_error r)"
  by (auto simp: bad_row_def skipped_def row_error_def Let_def split: option.splits)

lemma parse_rows_append:
  "parse_rows py_int py_float (pre @ post) acc ms =
     (case parse_rows py_int py_float pre acc ms of
        Inl e \<Rightarrow> Inl e
      | Inr r \<Rightarrow> parse_rows py_int py_float post (fst r) (snd r))"
  by (induction py_int py_float pre acc ms rule: parse_rows.induct)
     (auto simp: Let_def split: option.splits)

lemma parse_rows_error:
  "parse_rows py_int py_float rows acc ms = Inl e \<Longrightarrow>
     \<exists>r\<in>set rows. bad_row py_int py_float r \<and> e = row_error r"
  by (induction py_int py_float rows acc ms rule: parse_rows.induct)
     (auto simp: Let_def bad_row_def skipped_def row_error_def split: option.splits if_splits)

lemma parse_rows_good:
  "\<forall>r\<in>set rows. \<not> bad_row py_int py_float r \<Longrightarrow>
     \<exists>res. parse_rows py_int py_float rows acc ms = Inr res"
  using parse_rows_error [of py_int py_float rows acc ms]
  by (cases "parse_rows py_int py_float rows acc ms") auto

lemma parse_rows_months:
  "parse_rows py_int py_float rows acc ms = Inr (all_data, months_found) \<Longrightarrow>
     ms = month ` set acc \<Longrightarrow> months_found = month ` set all_data"
  by (induction py_int py_float rows acc ms rule: parse_rows.induct)
     (auto simp: Let_def split: option.splits if_splits)

text \<open>
  C7. With a positive salary and horizon and a good header: a data row that does not have
  3 fields, or whose trimmed month or category field is empty, can be removed without
  changing the answer of \<^verbatim>\<open>forecast\<close>; a row with 3 fields, non-empty trimmed month and
  category, and a month that \<^verbatim>\<open>int\<close> rejects or an amount that \<^verbatim>\<open>float\<close> rejects makes
  \<^verbatim>\<open>forecast\<close> answer with the row error of such a row, whatever the other rows are: the
  error names the trimmed category, month and amount fields of the first such row, which
  is this row when no earlier row is of that kind.
\<close>

theorem row_handling:
  assumes "0 < salary" and "0 < h" and "headers_ok headers"
  shows "(skipped r \<longrightarrow>
            forecast py_int py_float list_of_set salary h (headers # pre @ r # post) =
            forecast py_int py_float list_of_set salary h (headers # pre @ post))
       \<and> (bad_row py_int py_float r \<longrightarrow>
            (\<exists>r'\<in>set (pre @ [r]). bad_row py_int py_float r' \<and>
               forecast py_int py_float list_of_set salary h (headers # pre @ r # post) = Inl (row_error r'))
            \<and> ((\<forall>r'\<in>set pre. \<not> bad_row py_int py_float r') \<longrightarrow>
               forecast py_int py_float list_of_set salary h (headers # pre @ r # post) = Inl (row_error r)))"
proof (intro conjI impI)
  assume "skipped r"
  then have "parse_rows py_int py_float (pre @ r # post) [] {} =
             parse_rows py_int py_float (pre @ post) [] {}"
    by (simp add: parse_rows_append parse_rows_skip del: parse_rows.simps split: sum.splits)
  then show "forecast py_int py_float list_of_set salary h (headers # pre @ r # post) =
             forecast py_int py_float list_of_set salary h (headers # pre @ post)"
    by (simp add: forecast_def)
next
  assume bad: "bad_row py_int py_float r"
  have fc: "forecast py_int py_float list_of_set salary h (headers # pre @ r # post) = Inl e"
    if "parse_rows py_int py_float (pre @ r # post) [] {} = Inl e" for e
    using that assms by (simp add: forecast_def)
  show "\<exists>r'\<in>set (pre @ [r]). bad_row py_int py_float r' \<and>
          forecast py_int py_float list_of_set salary h (headers # pre @ r # post) = Inl (row_error r')"
  proof (cases "parse_rows py_int py_float pre [] {}")
    case (Inl e)
    then obtain r' where "r' \<in> set pre" "bad_row py_int py_float r'" "e = row_error r'"
      using parse_rows_error by blast
    moreover have "parse_rows py_int py_float (pre @ r # post) [] {} = Inl e"
      using Inl by (simp add: parse_rows_append)
    ultimately show ?thesis using fc by auto
  next
    case (Inr res)
    then have "parse_rows py_int py_float (pre @ r # post) [] {} = Inl (row_error r)"
      using bad by (simp add: parse_rows_append parse_rows_bad del: parse_rows.simps)
    then show ?thesis using fc bad by auto
  qed
  show "forecast py_int py_float list_of_set salary h (headers # pre @ r # post) = Inl (row_error r)"
    if good: "\<forall>r'\<in>set pre. \<not> bad_row py_int py_float r'"
  proof -
    obtain res where "parse_rows py_int py_float pre [] {} = Inr res"
      using parse_rows_good [OF good] by blast
    then have "parse_rows py_int py_float (pre @ r # post) [] {} = Inl (row_error r)"
      using bad by (simp add: parse_rows_append parse_rows_bad del: parse_rows.simps)
    then show ?thesis by (rule fc)
  qed
qed

text \<open>The definitions to unfold when evaluating \<^verbatim>\<open>forecast\<close> on a concrete table.\<close>

lemmas ev = forecast_def headers_ok_def lower_def lower_char_def strip_def isspace_def
  dec_int_def dec_float_def digit_val_def Let_def skipped_def bad_row_def row_error_def

theorem row_handling_witness:
  "forecast dec_int dec_float remdups 100 3
     [[''month'', ''category'', ''amount''], ['' 1'', ''food '', ''10''], [[]],
      [[CHR 0xA0], ''food'', ''5''],
      [''2 '', CHR 0x85 # ''food'', '' abc''], [''3'', ''rent'', ''5'']] =
   Inl (InvalidRow ''food'' ''2'' ''abc'')"
  using row_handling [of 100 3 "[''month'', ''category'', ''amount'']"
      "[[CHR 0xA0], ''food'', ''5'']"
      dec_int dec_float remdups "[['' 1'', ''food '', ''10''], [[]]]"
      "[[''2 '', CHR 0x85 # ''food'', '' abc''], [''3'', ''rent'', ''5'']]"]
    row_handling [of 100 3 "[''month'', ''category'', ''amount'']"
      "[''2 '', CHR 0x85 # ''food'', '' abc'']"
      dec_int dec_float remdups
      "[['' 1'', ''food '', ''10''], [[]], [[CHR 0xA0], ''food'', ''5'']]"
      "[[''3'', ''rent'', ''5'']]"]
  by (simp add: ev)

text \<open>
  C6. With a positive salary and horizon and a good header, when the row loop ends with
  the observations \<open>all_data\<close>: the months it collected are those of \<open>all_data\<close>; with no
  observation the answer is the no-data error (although the month count, 0, is below 3);
  otherwise with fewer than 3 distinct months the answer is the too-few-months error
  carrying the number of distinct months; in both cases the answer is an error, not a
  forecast. With 3 distinct months or more a forecast is returned.
\<close>

theorem data_checks:
  assumes "0 < salary" and "0 < h" and "headers_ok headers"
    and "parse_rows py_int py_float data_rows [] {} = Inr (all_data, months_found)"
  shows "months_found = month ` set all_data
       \<and> (all_data = [] \<longrightarrow>
            forecast py_int py_float list_of_set salary h (headers # data_rows) = Inl NoValidData)
       \<and> (all_data \<noteq> [] \<longrightarrow> card (month ` set all_data) < 3 \<longrightarrow>
            forecast py_int py_float list_of_set salary h (headers # data_rows) =
              Inl (TooFewMonths (card (month ` set all_data))))
       \<and> (all_data \<noteq> [] \<longrightarrow> 3 \<le> card (month ` set all_data) \<longrightarrow>
            (\<exists>out. forecast py_int py_float list_of_set salary h (headers # data_rows) = Inr out))"
proof -
  have m: "months_found = month ` set all_data"
    using parse_rows_months [OF assms(4)] by simp
  show ?thesis
    using assms m
    by (auto simp: forecast_def Let_def generate_forecast_Some)
qed

theorem data_checks_witness:
  "forecast dec_int dec_float remdups 100 3
     [[''month'', ''category'', ''amount''], ['' 1'', ''food'', ''10 ''], [''2'', ''food'', ''20'']] =
   Inl (TooFewMonths 2)
   \<and> forecast dec_int dec_float remdups 100 3
     [[''month'', ''category'', ''amount''], [''1'', [CHR 0xA0], ''10''], []] = Inl NoValidData"
  using data_checks [of 100 3 "[''month'', ''category'', ''amount'']" dec_int dec_float
      "[['' 1'', ''food'', ''10 ''], [''2'', ''food'', ''20'']]"
      "[obs 1 ''food'' 10, obs 2 ''food'' 20]" "{1, 2}" remdups]
    data_checks [of 100 3 "[''month'', ''category'', ''amount'']" dec_int dec_float
      "[[''1'', [CHR 0xA0], ''10''], []]" "[]" "{}" remdups]
  by (simp add: ev obs_def)

section \<open>The summaries of the engine\<close>

lemma fold_record_distinct:
  "distinct (map fst (fst st)) \<Longrightarrow> distinct (map fst (fst (fold (record_entry P f) cats st)))"
  by (induction cats arbitrary: st) (auto simp: record_entry_def distinct_dict_set)

lemma distinct_historical_summary: "distinct (map fst (historical_summary data cats salary m))"
  by (simp add: historical_summary_def split_beta historical_category_record
      distinct_dict_set fold_record_distinct)

lemma distinct_future_summary: "distinct (map fst (future_summary data cats salary m))"
  by (simp add: future_summary_def split_beta future_category_record
      distinct_dict_set fold_record_distinct)

lemma keys_future_summary:
  "fst ` set (future_summary data cats salary m) =
     {''month'', ''savings''} \<union> {c \<in> set cats. \<exists>x\<in>set data. category x = c}"
  by (auto simp: future_summary_def split_beta future_category_record keys_dict_set
      fold_record_keys)

lemma keys_historical_summary:
  "fst ` set (historical_summary data cats salary m) =
     {''month'', ''savings''} \<union> {c \<in> set cats. \<exists>x\<in>set data. category x = c \<and> month x = m}"
  by (auto simp: historical_summary_def split_beta historical_category_record keys_dict_set
      fold_record_keys)

lemma predicted_amount_nonneg: "0 \<le> predicted_amount data c m"
  by (simp add: predicted_amount_def Let_def)

lemma parts_of_output:
  assumes "generate_forecast data cats salary h = Some res"
  shows "data \<noteq> []"
    and "historical_part data res = map (historical_summary data cats salary) (months_of data)"
    and "future_part data res = map (future_summary data cats salary)
           [Max (month ` set data) + 1..Max (month ` set data) + h]"
proof -
  show d: "data \<noteq> []" using assms by (auto simp: generate_forecast_None)
  have "res = map (historical_summary data cats salary) (months_of data) @
        map (future_summary data cats salary)
           [Max (month ` set data) + 1..Max (month ` set data) + h]"
    using assms generate_forecast_Some [OF d, of cats salary h] by simp
  then show "historical_part data res = map (historical_summary data cats salary) (months_of data)"
    and "future_part data res = map (future_summary data cats salary)
           [Max (month ` set data) + 1..Max (month ` set data) + h]"
    by (simp_all add: historical_part_def future_part_def)
qed

text \<open>
  Away from the key \<^verbatim>\<open>'savings'\<close> the predictions are clamped: in every future summary of
  the output, every entry other than \<^verbatim>\<open>'month'\<close> and
  \<^verbatim>\<open>'savings'\<close> is at least 0; and for every category of the list that has data, the
  summary has an entry under its name that is at least 0. (The key \<^verbatim>\<open>'savings'\<close> holds the
  savings of the month, which line 173 writes last, and is not a prediction.)
\<close>

theorem predictions_clamped:
  assumes "generate_forecast data cats salary h = Some res"
    and "md \<in> set (future_part data res)"
  shows "(\<forall>kv\<in>set (category_entries md). 0 \<le> snd kv)
       \<and> (\<forall>c\<in>set cats. (\<exists>x\<in>set data. category x = c) \<longrightarrow> c \<noteq> ''savings'' \<longrightarrow>
            (\<exists>v. dict_get md c = Some v \<and> 0 \<le> v))"
proof -
  obtain m where md: "md = future_summary data cats salary m"
    using assms parts_of_output(3) [OF assms(1)] by auto
  have "0 \<le> v" if "(k, v) \<in> set md" "k \<noteq> ''month''" "k \<noteq> ''savings''" for k v
  proof -
    have "dict_get md k = Some v"
      using that(1) distinct_future_summary [of data cats salary m]
      by (simp add: md dict_get_def)
    then show ?thesis
      using that(2,3) predicted_amount_nonneg [of data k m]
      by (auto simp: md future_summary_get split: if_splits)
  qed
  then have 1: "\<forall>kv\<in>set (category_entries md). 0 \<le> snd kv"
    by (auto simp: category_entries_def)
  have 2: "\<forall>c\<in>set cats. (\<exists>x\<in>set data. category x = c) \<longrightarrow> c \<noteq> ''savings'' \<longrightarrow>
            (\<exists>v. dict_get md c = Some v \<and> 0 \<le> v)"
    by (auto simp: md future_summary_get predicted_amount_nonneg)
  show ?thesis using 1 2 by blast
qed


text \<open>The definitions to unfold when evaluating the engine on concrete observations.\<close>

lemmas engine_ev = generate_forecast_def months_of_def historical_summary_def
  historical_category_def future_summary_def future_category_def predicted_amount_def
  monthly_category_sums_def add_amount_def regression_X_def regression_y_def fit_def
  predict_def mean_def range_list_def dict_get_def dict_keys_def obs_def Let_def
  historical_part_def future_part_def category_series_def category_entries_def
  month_values_def


subsection \<open>The examples, evaluated\<close>

lemma example_parse:
  "parse_rows dec_int dec_float (tl example_rows) [] {} = Inr (example_data, {0, 1, 2})"
  by (simp add: example_rows_def example_data_def ev obs_def insert_commute)

lemma example_run:
  "generate_forecast example_data [''rent'', ''food''] 100 2 = Some example_output"
  by (simp add: example_data_def example_output_def engine_ev)

lemma forecast_run:
  assumes "0 < salary" and "0 < h" and "headers_ok headers"
    and "parse_rows py_int py_float data_rows [] {} = Inr (all_data, months_found)"
    and "all_data \<noteq> []" and "3 \<le> card months_found"
    and "generate_forecast all_data (list_of_set (map category all_data)) salary h = Some out"
  shows "forecast py_int py_float list_of_set salary h (headers # data_rows) =
           Inr (list_of_set (map category all_data), out)"
  using assms by (simp add: forecast_def)

lemma example_header: "headers_ok [''month'', ''category'', ''amount'']"
  by (simp add: headers_ok_def lower_def lower_char_def)

lemma example_forecast:
  "forecast dec_int dec_float remdups 100 2 example_rows = Inr ([''rent'', ''food''], example_output)"
proof -
  have c: "remdups (map category example_data) = [''rent'', ''food'']"
    by (simp add: example_data_def obs_def)
  have "forecast dec_int dec_float remdups 100 2 ([''month'', ''category'', ''amount''] # tl example_rows) =
          Inr (remdups (map category example_data), example_output)"
    by (rule forecast_run [OF _ _ example_header example_parse])
       (simp_all add: c example_run, simp add: example_data_def)
  then show ?thesis by (simp add: c example_rows_def)
qed

lemma example_months: "months_of example_data = [0, 1, 2]"
  by (simp add: months_of_def example_data_def obs_def)

lemma example_future:
  "future_part example_data example_output =
     [[(''month'', 3), (''savings'', 70), (''rent'', 0), (''food'', 30)],
      [(''month'', 4), (''savings'', 60), (''rent'', 0), (''food'', 40)]]"
  by (simp add: future_part_def example_months example_output_def)

lemma example_series:
  "category_series example_data ''rent'' = [(0, - 5)]"
  "category_series example_data ''food'' = [(1, 10), (2, 20)]"
  by (simp_all add: example_data_def engine_ev)

theorem predictions_clamped_witness:
  "\<exists>v::real. dict_get [(''month'', 4), (''savings'', 60), (''rent'', 0), (''food'', 40)] ''rent'' = Some v
        \<and> 0 \<le> v"
proof -
  have "[(''month'', 4), (''savings'', 60), (''rent'', 0), (''food'', 40 :: real)] \<in>
        set (future_part example_data example_output)"
    by (simp add: example_future)
  from predictions_clamped [OF example_run this] show ?thesis
    by (simp add: example_data_def obs_def)
qed


section \<open>The timeline\<close>

lemma sorted_timeline:
  assumes "data \<noteq> []"
  shows "sorted_wrt (<) (months_of data @ [Max (month ` set data) + 1..Max (month ` set data) + h])"
proof -
  have "sorted_wrt (<) [Max (month ` set data) + 1..Max (month ` set data) + h]"
    by (simp add: strict_sorted_iff)
  moreover have "x < y" if "x \<in> set (months_of data)"
    "y \<in> set [Max (month ` set data) + 1..Max (month ` set data) + h]" for x y
  proof -
    have "x \<le> Max (month ` set data)" using that(1) by (simp add: set_months_of)
    then show ?thesis using that(2) by simp
  qed
  ultimately show ?thesis by (simp add: sorted_wrt_append sorted_months_of)
qed

lemma month_values_historical:
  assumes "''month'' \<notin> set cats"
  shows "month_values (map (historical_summary data cats salary) ms) =
           map (\<lambda>m. Some (real_of_int m)) ms"
  using assms by (simp add: month_values_def historical_summary_get)

lemma month_values_future:
  assumes "''month'' \<notin> set cats"
  shows "month_values (map (future_summary data cats salary) ms) =
           map (\<lambda>m. Some (real_of_int m)) ms"
  using assms by (simp add: month_values_def future_summary_get)

text \<open>
  C1, as amended. For observations that are not empty and a category list without the
  name \<^verbatim>\<open>month\<close>, \<^verbatim>\<open>generate_forecast\<close> returns a list whose length is the number of distinct
  months plus the horizon; the \<^verbatim>\<open>'month'\<close> values of its historical part are the distinct
  months of the observations in ascending order (with the gaps the observations have),
  those of its future part are the consecutive months that start at the largest month
  plus 1, and the whole sequence is strictly ascending.
\<close>

theorem timeline_months:
  assumes "data \<noteq> []" and "''month'' \<notin> set cats"
  shows "\<exists>res. generate_forecast data cats salary h = Some res
       \<and> length res = card (month ` set data) + nat h
       \<and> res = historical_part data res @ future_part data res
       \<and> month_values (historical_part data res) =
           map (\<lambda>m. Some (real_of_int m)) (months_of data)
       \<and> month_values (future_part data res) =
           map (\<lambda>m. Some (real_of_int m))
             [Max (month ` set data) + 1..Max (month ` set data) + h]
       \<and> set (months_of data) = month ` set data
       \<and> sorted_wrt (<)
           (months_of data @ [Max (month ` set data) + 1..Max (month ` set data) + h])
       \<and> no_gaps (month_values (future_part data res))"
proof -
  let ?fut = "[Max (month ` set data) + 1..Max (month ` set data) + h]"
  let ?res = "map (historical_summary data cats salary) (months_of data) @
              map (future_summary data cats salary) ?fut"
  have g: "generate_forecast data cats salary h = Some ?res"
    by (rule generate_forecast_Some [OF assms(1)])
  have hp: "historical_part data ?res = map (historical_summary data cats salary) (months_of data)"
    and fp: "future_part data ?res = map (future_summary data cats salary) ?fut"
    using parts_of_output(2,3) [OF g] by simp_all
  have len: "length ?res = card (month ` set data) + nat h"
    by (simp add: length_months_of)
  have split: "?res = historical_part data ?res @ future_part data ?res"
    by (simp add: historical_part_def future_part_def)
  have mh: "month_values (historical_part data ?res) =
           map (\<lambda>m. Some (real_of_int m)) (months_of data)"
    unfolding hp by (rule month_values_historical [OF assms(2)])
  have mf: "month_values (future_part data ?res) = map (\<lambda>m. Some (real_of_int m)) ?fut"
    unfolding fp by (rule month_values_future [OF assms(2)])
  have ng: "no_gaps (month_values (future_part data ?res))"
    unfolding mf by (rule no_gaps_upto)
  show ?thesis
    using g len split mh mf ng set_months_of [of data] sorted_timeline [OF assms(1), of h]
    by blast
qed

theorem timeline_months_witness:
  "\<exists>res. generate_forecast example_data [''rent'', ''food''] 100 2 = Some res
     \<and> length res = 5
     \<and> month_values (future_part example_data res) = [Some 3, Some 4]"
proof -
  have 1: "example_data \<noteq> []" by (simp add: example_data_def)
  have 2: "''month'' \<notin> set [''rent'', ''food'']" by simp
  have 3: "month ` set example_data = {0, 1, 2}"
    by (auto simp: example_data_def obs_def)
  have 4: "[(3::int)..4] = [3, 4]" by (simp add: upto_rec1)
  from timeline_months [OF 1 2, of 100 2] obtain res where
    "generate_forecast example_data [''rent'', ''food''] 100 2 = Some res"
    "length res = card (month ` set example_data) + nat 2"
    "month_values (future_part example_data res) =
       map (\<lambda>m. Some (real_of_int m))
         [Max (month ` set example_data) + 1..Max (month ` set example_data) + 2]"
    by blast
  then show ?thesis by (simp add: 3 4)
qed

lemma gap_parse:
  "parse_rows dec_int dec_float (tl gap_rows) [] {} = Inr (gap_data, {1, 3, 7})"
  by (simp add: gap_rows_def gap_data_def ev obs_def insert_commute)

lemma gap_run: "generate_forecast gap_data [''food''] 100 2 = Some gap_output"
  by (simp add: gap_data_def gap_output_def engine_ev)

text \<open>
  C1 as stated fails: a table with the months 1, 3 and 7 is valid, and the months of its
  forecast are 1, 3, 7, 8, 9, which are not each the previous month plus 1.
\<close>

theorem timeline_gap_counterexample:
  "forecast dec_int dec_float remdups 100 2 gap_rows = Inr ([''food''], gap_output)
   \<and> month_values gap_output = [Some 1, Some 3, Some 7, Some 8, Some 9]
   \<and> \<not> no_gaps (month_values gap_output)"
proof -
  have c: "remdups (map category gap_data) = [''food'']"
    by (simp add: gap_data_def obs_def)
  have "forecast dec_int dec_float remdups 100 2 ([''month'', ''category'', ''amount''] # tl gap_rows) =
          Inr (remdups (map category gap_data), gap_output)"
    by (rule forecast_run [OF _ _ example_header gap_parse])
       (simp_all add: c gap_run, simp add: gap_data_def)
  then have "forecast dec_int dec_float remdups 100 2 gap_rows = Inr ([''food''], gap_output)"
    by (simp add: c gap_rows_def)
  moreover have "month_values gap_output = [Some 1, Some 3, Some 7, Some 8, Some 9]"
    by (simp add: month_values_def gap_output_def dict_get_def)
  ultimately show ?thesis by simp
qed


section \<open>The regression\<close>

lemma length_regression: "length (regression_X tbl c) = length (regression_y tbl c)"
  by (simp add: regression_X_def regression_y_def)

lemma category_series_Nil:
  assumes "category_series data c \<noteq> []"
  shows "\<exists>x\<in>set data. category x = c"
proof (rule ccontr)
  assume "\<not> (\<exists>x\<in>set data. category x = c)"
  then have "filter (\<lambda>item. category item = c) data = []"
    by (simp add: filter_empty_conv)
  then show False
    using assms
    by (simp add: category_series_def monthly_category_sums_def regression_X_def)
qed

lemma predicted_amount_series:
  "predicted_amount data c m =
     max 0 (predict (fit (map fst (category_series data c)) (map snd (category_series data c))) m)"
  by (simp add: predicted_amount_def category_series_def Let_def length_regression)

lemma fit_single: "fit [m0] [a0] = (0, a0)"
  by (simp add: fit_def mean_def Let_def)

text \<open>
  C3, as amended. For a category whose series is the single point \<open>(m0, a0)\<close>, the
  predicted amount at every month is \<open>max 0 a0\<close> (the constant line through the point,
  clamped at 0), the engine returns a result, and in every future summary of that result
  the entry of the category, when it is in the category list and is not named
  \<^verbatim>\<open>savings\<close>, is \<open>max 0 a0\<close>.
\<close>

theorem single_point_prediction:
  assumes "category_series data c = [(m0, a0)]"
  shows "predicted_amount data c m = max 0 a0
       \<and> (\<exists>res. generate_forecast data cats salary h = Some res)
       \<and> (\<forall>res md. generate_forecast data cats salary h = Some res \<longrightarrow>
            md \<in> set (future_part data res) \<longrightarrow> c \<in> set cats \<longrightarrow> c \<noteq> ''savings'' \<longrightarrow>
            dict_get md c = Some (max 0 a0))"
proof -
  have p: "predicted_amount data c m' = max 0 a0" for m'
    by (simp add: predicted_amount_series assms fit_single predict_def)
  have ex: "\<exists>x\<in>set data. category x = c"
    using category_series_Nil [of data c] assms by simp
  then have d: "data \<noteq> []" by auto
  have "dict_get md c = Some (max 0 a0)"
    if g: "generate_forecast data cats salary h = Some res"
      and f: "md \<in> set (future_part data res)"
      and cc: "c \<in> set cats" and cs: "c \<noteq> ''savings''" for res md
  proof -
    obtain m' where "md = future_summary data cats salary m'"
      using f parts_of_output(3) [OF g] by auto
    then show ?thesis using cc cs ex by (simp add: future_summary_get p)
  qed
  then show ?thesis using p generate_forecast_Some [OF d] by blast
qed

theorem single_point_prediction_witness:
  "predicted_amount example_data ''rent'' 3 = 0
   \<and> (\<exists>res. generate_forecast example_data [''rent'', ''food''] 100 2 = Some res)"
  using single_point_prediction [of example_data "''rent''" 0 "- 5" 3 "[''rent'', ''food'']" 100 2]
  by (simp add: example_series)

text \<open>
  C3 as stated fails: in the example table the category \<^verbatim>\<open>rent\<close> has the single point
  \<open>(0, -5)\<close>, and its prediction for month 3 is 0, not \<open>-5\<close>.
\<close>

theorem single_negative_point_counterexample:
  "forecast dec_int dec_float remdups 100 2 example_rows = Inr ([''rent'', ''food''], example_output)
   \<and> category_series example_data ''rent'' = [(0, - 5)]
   \<and> predicted_amount example_data ''rent'' 3 = 0
   \<and> dict_get (example_output ! 3) ''rent'' = Some 0
   \<and> (0::real) \<noteq> - 5"
proof -
  have "predicted_amount example_data ''rent'' 3 = 0"
    by (simp add: predicted_amount_series example_series fit_single predict_def)
  moreover have "dict_get (example_output ! 3) ''rent'' = Some 0"
    by (simp add: example_output_def dict_get_def)
  ultimately show ?thesis by (simp add: example_forecast example_series)
qed

text \<open>
  C5. For a category whose series is the two points \<open>(1, 10)\<close> and \<open>(2, 20)\<close>, in either
  order, the predicted amount at month 3 is exactly 30.
\<close>

theorem two_point_extrapolation:
  assumes "category_series data c = [(1, 10), (2, 20)] \<or>
           category_series data c = [(2, 20), (1, 10)]"
  shows "predicted_amount data c 3 = 30"
  using assms
  by (auto simp: predicted_amount_series fit_def mean_def predict_def Let_def)

theorem two_point_extrapolation_witness:
  "predicted_amount example_data ''food'' 3 = 30"
  using two_point_extrapolation [of example_data "''food''"]
  by (simp add: example_series)


section \<open>The categories of the future summaries\<close>

lemma forecast_Inr:
  assumes "forecast py_int py_float list_of_set salary h (headers # data_rows) = Inr (cats, out)"
    and "parse_rows py_int py_float data_rows [] {} = Inr (all_data, months_found)"
  shows "cats = list_of_set (map category all_data)"
    and "generate_forecast all_data cats salary h = Some out"
  using assms
  by (auto simp: forecast_def Let_def split: if_splits option.splits)

text \<open>
  No category is left out of a future summary. When \<^verbatim>\<open>forecast\<close> returns the categories \<open>cats\<close> and the output \<open>out\<close> for the
  observations \<open>all_data\<close>, and \<^verbatim>\<open>list(set(...))\<close> lists the elements it is given, in whatever
  order: the categories are exactly those of the observations, so each
  has at least one observation and the test of line 143 never fails for it; and every
  future summary of the output has a key for every category, which, unless the category
  is named \<^verbatim>\<open>savings\<close>, holds the predicted amount of that category.
\<close>

theorem every_category_predicted:
  assumes "forecast py_int py_float list_of_set salary h (headers # data_rows) = Inr (cats, out)"
    and "parse_rows py_int py_float data_rows [] {} = Inr (all_data, months_found)"
    and "set (list_of_set (map category all_data)) = set (map category all_data)"
  shows "set cats = category ` set all_data
       \<and> (\<forall>c\<in>set cats. filter (\<lambda>item. category item = c) all_data \<noteq> [])
       \<and> (\<forall>md\<in>set (future_part all_data out). \<forall>c\<in>set cats.
            c \<in> set (dict_keys md) \<and>
            (c \<noteq> ''savings'' \<longrightarrow>
               (\<exists>m. dict_get md c = Some (predicted_amount all_data c m))))"
proof -
  have cats: "cats = list_of_set (map category all_data)"
    and gen: "generate_forecast all_data cats salary h = Some out"
    using forecast_Inr [OF assms(1,2)] by simp_all
  have 1: "set cats = category ` set all_data" using assms(3) by (simp add: cats)
  have 2: "\<forall>c\<in>set cats. filter (\<lambda>item. category item = c) all_data \<noteq> []"
    using 1 by (auto simp: filter_empty_conv)
  have 3: "c \<in> set (dict_keys md) \<and>
            (c \<noteq> ''savings'' \<longrightarrow> (\<exists>m. dict_get md c = Some (predicted_amount all_data c m)))"
    if f: "md \<in> set (future_part all_data out)" and c: "c \<in> set cats" for md c
  proof -
    obtain m where md: "md = future_summary all_data cats salary m"
      using f parts_of_output(3) [OF gen] by auto
    have ex: "\<exists>x\<in>set all_data. category x = c" using c 1 by auto
    have "c \<in> fst ` set md"
      using c ex by (simp add: md keys_future_summary)
    moreover have "c \<noteq> ''savings'' \<longrightarrow> dict_get md c = Some (predicted_amount all_data c m)"
      using c ex by (simp add: md future_summary_get)
    ultimately show ?thesis by (auto simp: dict_keys_def)
  qed
  show ?thesis using 1 2 3 by blast
qed

theorem every_category_predicted_witness:
  "set [''rent'', ''food''] = category ` set example_data
   \<and> ''rent'' \<in> set (dict_keys (example_output ! 4))"
proof -
  have "example_rows = [''month'', ''category'', ''amount''] # tl example_rows"
    by (simp add: example_rows_def)
  then have f: "forecast dec_int dec_float remdups 100 2 ([''month'', ''category'', ''amount''] # tl example_rows) =
      Inr ([''rent'', ''food''], example_output)"
    using example_forecast by simp
  have "example_output ! 4 = [(''month'', 4), (''savings'', 60), (''rent'', 0), (''food'', 40)]"
    by (simp add: example_output_def)
  then have "example_output ! 4 \<in> set (future_part example_data example_output)"
    by (simp add: example_future)
  then show ?thesis
    using every_category_predicted [OF f example_parse] by simp
qed


section \<open>The historical summaries\<close>

text \<open>
  When the category list is without repetition and holds neither \<^verbatim>\<open>month\<close> nor
  \<^verbatim>\<open>savings\<close>, a historical summary is the month, the savings and one entry per category
  observed in the month; its savings are the salary minus the sum of those entries, and a
  category has a key exactly when it was observed in the month.
\<close>

lemma historical_summary_plain:
  assumes "distinct cats" and "''month'' \<notin> set cats" and "''savings'' \<notin> set cats"
  shows "historical_summary data cats salary m =
     [(''month'', of_int m),
      (''savings'', salary - sum_list (map (month_amount data m)
          (filter (\<lambda>c. \<exists>x\<in>set data. category x = c \<and> month x = m) cats)))] @
     map (\<lambda>c. (c, month_amount data m c))
       (filter (\<lambda>c. \<exists>x\<in>set data. category x = c \<and> month x = m) cats)"
proof -
  let ?P = "\<lambda>c. \<exists>x\<in>set data. category x = c \<and> month x = m"
  let ?st = "([(''month'', real_of_int m), (''savings'', 0)], 0::real)"
  have "set cats \<inter> fst ` set (fst ?st) = {}" using assms(2,3) by auto
  then have 1: "fst (fold (record_entry ?P (month_amount data m)) cats ?st) =
      fst ?st @ map (\<lambda>c. (c, month_amount data m c)) (filter ?P cats)"
    by (rule fold_record_fresh [OF assms(1)])
  have 2: "snd (fold (record_entry ?P (month_amount data m)) cats ?st) =
      sum_list (map (month_amount data m) (filter ?P cats))"
    using fold_record_total [OF assms(1), of ?P "month_amount data m" ?st] by simp
  show ?thesis
    by (simp add: historical_summary_def historical_category_record split_beta 1 2)
qed

lemma historical_savings_identity:
  assumes "distinct cats" and "''month'' \<notin> set cats" and "''savings'' \<notin> set cats"
  shows "dict_get (historical_summary data cats salary m) ''savings'' =
     Some (salary - sum_list (map snd (category_entries (historical_summary data cats salary m))))"
proof -
  let ?P = "\<lambda>c. \<exists>x\<in>set data. category x = c \<and> month x = m"
  have "filter (\<lambda>kv. fst kv \<noteq> ''month'' \<and> fst kv \<noteq> ''savings'')
          (map (\<lambda>c. (c, month_amount data m c)) (filter ?P cats)) =
        map (\<lambda>c. (c, month_amount data m c)) (filter ?P cats)"
    using assms(2,3) by (auto simp: filter_id_conv)
  then have "map snd (category_entries (historical_summary data cats salary m)) =
        map (month_amount data m) (filter ?P cats)"
    by (simp add: historical_summary_plain [OF assms] category_entries_def comp_def)
  then show ?thesis
    by (simp add: historical_summary_plain [OF assms] dict_get_def)
qed

lemma historical_category_keys:
  assumes "c \<in> set cats" and "c \<noteq> ''month''" and "c \<noteq> ''savings''"
  shows "(c \<in> set (dict_keys (historical_summary data cats salary m))) =
           (\<exists>x\<in>set data. category x = c \<and> month x = m)"
    and "(\<exists>x\<in>set data. category x = c \<and> month x = m) \<Longrightarrow>
           dict_get (historical_summary data cats salary m) c = Some (month_amount data m c)"
  using assms by (auto simp: dict_keys_def keys_historical_summary historical_summary_get)

subsection \<open>A category named like a key of the summary\<close>

lemma savings_parse:
  "parse_rows dec_int dec_float (tl savings_rows) [] {} = Inr (savings_data, {1, 2, 3})"
  by (simp add: savings_rows_def savings_data_def ev obs_def insert_commute)

lemma savings_run:
  "generate_forecast savings_data [''savings'', ''food''] 100 1 = Some savings_output"
  by (simp add: savings_data_def savings_output_def engine_ev)

lemma savings_forecast:
  "forecast dec_int dec_float remdups 100 1 savings_rows = Inr ([''savings'', ''food''], savings_output)"
proof -
  have c: "remdups (map category savings_data) = [''savings'', ''food'']"
    by (simp add: savings_data_def obs_def)
  have "forecast dec_int dec_float remdups 100 1 ([''month'', ''category'', ''amount''] # tl savings_rows) =
          Inr (remdups (map category savings_data), savings_output)"
    by (rule forecast_run [OF _ _ example_header savings_parse])
       (simp_all add: c savings_run, simp add: savings_data_def)
  then show ?thesis by (simp add: c savings_rows_def)
qed

text \<open>
  C2 fails on the code. In the table \<^verbatim>\<open>savings_rows\<close> a category is named \<^verbatim>\<open>savings\<close>, with
  the amount 5 in month 1. Line 125 stores 5 under the key \<^verbatim>\<open>'savings'\<close> and line 128
  overwrites it: the summary of month 1 is \<^verbatim>\<open>{'month': 1, 'savings': 95}\<close>, with no
  per-category amount left, and 95 is not the salary 100 minus the sum of the
  per-category amounts present.
\<close>

theorem savings_category_breaks_identity:
  "forecast dec_int dec_float remdups 100 1 savings_rows = Inr ([''savings'', ''food''], savings_output)
   \<and> savings_output ! 0 = [(''month'', 1), (''savings'', 95)]
   \<and> category_entries (savings_output ! 0) = []
   \<and> dict_get (savings_output ! 0) ''savings'' \<noteq>
       Some (100 - sum_list (map snd (category_entries (savings_output ! 0))))"
  by (simp add: savings_forecast savings_output_def category_entries_def dict_get_def)

text \<open>
  C9 fails on the code, on the same table: the summary of month 2 has the key
  \<^verbatim>\<open>'savings'\<close> although no observation of the category \<^verbatim>\<open>savings\<close> exists in month 2, and
  in month 1, where the observations of that category sum to 5, the key holds 95.
\<close>

theorem savings_key_without_observation:
  "forecast dec_int dec_float remdups 100 1 savings_rows = Inr ([''savings'', ''food''], savings_output)
   \<and> savings_output ! 1 = [(''month'', 2), (''savings'', 97), (''food'', 3)]
   \<and> ''savings'' \<in> set (dict_keys (savings_output ! 1))
   \<and> filter (\<lambda>item. category item = ''savings'' \<and> month item = 2) savings_data = []
   \<and> month_amount savings_data 1 ''savings'' = 5
   \<and> dict_get (savings_output ! 0) ''savings'' = Some 95"
  by (simp add: savings_forecast savings_output_def dict_keys_def dict_get_def
      savings_data_def obs_def month_amount_def)

text \<open>
  The same collision on the key \<^verbatim>\<open>'month'\<close>: with a category named \<^verbatim>\<open>month\<close>, the month
  values of the output are the amounts of that category.
\<close>

lemma month_category_overwrites_month:
  "map_option month_values
     (generate_forecast [obs 1 ''month'' 5, obs 2 ''food'' 3, obs 3 ''food'' 4]
        [''month'', ''food''] 100 1) =
   Some [Some 5, Some 2, Some 3, Some 5]"
  by (simp add: engine_ev)

subsection \<open>The future summaries under the same collision\<close>

lemma overspent_parse:
  "parse_rows dec_int dec_float (tl overspent_rows) [] {} = Inr (overspent_data, {1, 2, 3})"
  by (simp add: overspent_rows_def overspent_data_def ev obs_def insert_commute)

lemma overspent_run:
  "generate_forecast overspent_data [''savings''] 1 1 = Some overspent_output"
  by (simp add: overspent_data_def overspent_output_def engine_ev)

lemma overspent_forecast:
  "forecast dec_int dec_float remdups 1 1 overspent_rows = Inr ([''savings''], overspent_output)"
proof -
  have c: "remdups (map category overspent_data) = [''savings'']"
    by (simp add: overspent_data_def obs_def)
  have "forecast dec_int dec_float remdups 1 1
          ([''month'', ''category'', ''amount''] # tl overspent_rows) =
          Inr (remdups (map category overspent_data), overspent_output)"
    by (rule forecast_run [OF _ _ example_header overspent_parse])
       (simp_all add: c overspent_run, simp add: overspent_data_def)
  then show ?thesis by (simp add: c overspent_rows_def)
qed

lemma overspent_future:
  "future_part overspent_data overspent_output = [[(''month'', 4), (''savings'', - 49)]]"
  by (simp add: future_part_def months_of_def overspent_data_def overspent_output_def obs_def)

lemma overspent_prediction: "predicted_amount overspent_data ''savings'' 4 = 50"
  by (simp add: overspent_data_def engine_ev)

text \<open>
  C4 fails on the code. In the table \<^verbatim>\<open>overspent_rows\<close> the only category is named
  \<^verbatim>\<open>savings\<close>. For the future month 4 line 170 stores the clamped prediction 50 under the
  key \<^verbatim>\<open>'savings'\<close> and line 173 overwrites it with the salary minus the total: the future
  summary is \<^verbatim>\<open>{'month': 4, 'savings': -49}\<close>, so the value it holds for the category
  \<^verbatim>\<open>savings\<close> is negative.
\<close>

theorem savings_category_entry_negative:
  "forecast dec_int dec_float remdups 1 1 overspent_rows = Inr ([''savings''], overspent_output)
   \<and> future_part overspent_data overspent_output = [[(''month'', 4), (''savings'', - 49)]]
   \<and> dict_get [(''month'', 4), (''savings'', - 49)] ''savings'' = Some (- 49)
   \<and> (- 49 :: real) < 0"
  by (simp add: overspent_forecast overspent_future dict_get_def)

text \<open>
  C10 fails on the code, on the same table: the category \<^verbatim>\<open>savings\<close> is in the returned
  category list and its predicted amount for month 4 is 50, but the future summary of
  month 4 holds no entry besides \<^verbatim>\<open>'month'\<close> and \<^verbatim>\<open>'savings'\<close>, and what it holds under
  \<^verbatim>\<open>'savings'\<close> is the savings of the month, not the prediction.
\<close>

theorem savings_category_prediction_lost:
  "forecast dec_int dec_float remdups 1 1 overspent_rows = Inr ([''savings''], overspent_output)
   \<and> future_part overspent_data overspent_output = [[(''month'', 4), (''savings'', - 49)]]
   \<and> category_entries [(''month'', 4), (''savings'', - 49)] = []
   \<and> predicted_amount overspent_data ''savings'' 4 = 50
   \<and> dict_get [(''month'', 4), (''savings'', - 49)] ''savings'' \<noteq>
       Some (predicted_amount overspent_data ''savings'' 4)"
  by (simp add: overspent_forecast overspent_future overspent_prediction dict_get_def
      category_entries_def)

end
